theory Spec2Isabelle
  imports Complex_Main "HOL-Library.Word"
begin

section \<open>Job record store (db/models.py)\<close>

text \<open>
  Timestamps are read off a clock (\<open>datetime.utcnow()\<close>); the model passes the
  reading in as a number. A Python \<open>datetime\<close> is always truthy, so
  \<open>not job.started_at\<close> is the test \<open>cj_started_at job = None\<close>.
  The float column \<open>compression_ratio\<close> is idealised as a real number.
\<close>

type_synonym datetime = nat

record CompressionJob =
  cj_id :: string
  cj_workflow_id :: string
  cj_status :: string
  cj_progress :: int
  cj_message :: "string option"
  cj_file_count :: int
  cj_original_size :: int
  cj_compressed_size :: "int option"
  cj_compression_ratio :: "real option"
  cj_compression_format :: string
  cj_created_at :: datetime
  cj_started_at :: "datetime option"
  cj_completed_at :: "datetime option"
  cj_compressed_data :: "string option"

text \<open>
  The table, keyed by its primary key \<open>id\<close> (field \<open>cj_id\<close>):
  \<open>select(CompressionJob).where(CompressionJob.id == job_id)\<close> followed by
  \<open>scalar_one_or_none()\<close> is the lookup of the key.
\<close>

type_synonym session = "string \<rightharpoonup> CompressionJob"

definition create_compression_job :: "session \<Rightarrow> CompressionJob \<Rightarrow> session \<times> CompressionJob" where
  "create_compression_job s job = (s(cj_id job \<mapsto> job), job)"

definition get_compression_job :: "session \<Rightarrow> string \<Rightarrow> CompressionJob option" where
  "get_compression_job s jid = s jid"

text \<open>Python truthiness of an \<open>Optional[str]\<close>: neither \<open>None\<close> nor the empty string.\<close>

fun truthy :: "string option \<Rightarrow> bool" where
  "truthy None = False"
| "truthy (Some m) = (m \<noteq> [])"

definition update_compression_job_progress ::
  "session \<Rightarrow> datetime \<Rightarrow> string \<Rightarrow> int \<Rightarrow> string \<Rightarrow> string option
     \<Rightarrow> session \<times> CompressionJob option" where
  "update_compression_job_progress s utcnow jid prog st msg =
     (case s jid of
        None \<Rightarrow> (s, None)
      | Some job \<Rightarrow>
          let job1 = job\<lparr>cj_progress := prog, cj_status := st\<rparr>;
              job2 = (if truthy msg then job1\<lparr>cj_message := msg\<rparr> else job1);
              job3 = (if st = ''starting'' \<and> cj_started_at job2 = None
                        then job2\<lparr>cj_started_at := Some utcnow\<rparr>
                      else if st \<in> set [''completed'', ''failed'']
                        then job2\<lparr>cj_completed_at := Some utcnow\<rparr>
                      else job2)
          in (s(jid \<mapsto> job3), Some job3))"

definition complete_compression_job ::
  "session \<Rightarrow> datetime \<Rightarrow> string \<Rightarrow> int \<Rightarrow> real \<Rightarrow> string
     \<Rightarrow> session \<times> CompressionJob option" where
  "complete_compression_job s utcnow jid csize ratio cdata =
     (case s jid of
        None \<Rightarrow> (s, None)
      | Some job \<Rightarrow>
          let job' = job\<lparr>cj_status := ''completed'', cj_progress := 100,
                         cj_compressed_size := Some csize,
                         cj_compression_ratio := Some ratio,
                         cj_compressed_data := Some cdata,
                         cj_completed_at := Some utcnow,
                         cj_message := Some ''Compression completed successfully''\<rparr>
          in (s(jid \<mapsto> job'), Some job'))"

text \<open>A record that has reached \<open>completed\<close>, used for concrete evaluation.\<close>

definition finished_job :: CompressionJob where
  "finished_job =
     \<lparr>cj_id = ''j1'', cj_workflow_id = ''compression-j1'', cj_status = ''completed'',
      cj_progress = 100, cj_message = Some ''Compression completed successfully'',
      cj_file_count = 2, cj_original_size = 300, cj_compressed_size = Some 120,
      cj_compression_ratio = Some 60, cj_compression_format = ''zip'',
      cj_created_at = 10, cj_started_at = Some 11, cj_completed_at = Some 15,
      cj_compressed_data = Some ''UEsDBA==''\<rparr>"

definition one_job_table :: session where
  "one_job_table = Map.empty(''j1'' \<mapsto> finished_job)"


section \<open>Connection manager (clients/couchbase.py)\<close>

record CouchbaseConf =
  host :: string
  username :: string
  password :: string
  bucket :: string
  protocol :: string

text \<open>A cluster object is identified by a number.\<close>

type_synonym handle = nat

record CouchbaseClient =
  cluster :: "handle option"
  config :: "CouchbaseConf option"
  initialized :: bool
  connected :: bool
  connection_task :: "nat option"
  last_connection_error :: "string option"
  last_error_log_time :: real

definition new_client :: "CouchbaseConf option \<Rightarrow> CouchbaseClient" where
  "new_client cfg =
     \<lparr>cluster = None, config = cfg, initialized = False, connected = False,
      connection_task = None, last_connection_error = None, last_error_log_time = 0\<rparr>"

datatype client_error = ValueError string | RuntimeError string

definition initialize :: "CouchbaseClient \<Rightarrow> client_error + CouchbaseClient" where
  "initialize c =
     (if config c = None then Inl (ValueError ''CouchbaseConf required'')
      else Inr (c\<lparr>initialized := True\<rparr>))"

text \<open>
  The event loop holds the tasks made by \<open>asyncio.create_task\<close>; a task is named by
  its position in that list and is \<open>Running\<close> until its coroutine returns.
\<close>

datatype task_state = Running | Finished

record runtime =
  client :: CouchbaseClient
  tasks :: "task_state list"

definition init_connection :: "runtime \<Rightarrow> runtime" where
  "init_connection rt =
     (if \<not> initialized (client rt) then rt
      else rt\<lparr>tasks := tasks rt @ [Running],
              client := (client rt)\<lparr>connection_task := Some (length (tasks rt))\<rparr>\<rparr>)"

text \<open>
  One pass of task \<open>t\<close> through the \<open>while not self._connected\<close> loop of
  \<open>_connection_retry_loop\<close>. The outcome of \<open>_create_cluster\<close> (a cluster, or an
  exception with its text) and the reading of \<open>time.time()\<close> come from outside.
\<close>

datatype attempt = Established handle | Refused string

definition retry_loop_pass :: "nat \<Rightarrow> attempt \<Rightarrow> real \<Rightarrow> runtime \<Rightarrow> runtime" where
  "retry_loop_pass t a current_time rt =
     (let c = client rt in
      if connected c then rt\<lparr>tasks := (tasks rt)[t := Finished]\<rparr>
      else (case a of
              Established h \<Rightarrow>
                rt\<lparr>client := c\<lparr>cluster := Some h, connected := True\<rparr>,
                   tasks := (tasks rt)[t := Finished]\<rparr>
            | Refused e \<Rightarrow>
                rt\<lparr>client := c\<lparr>last_connection_error := Some e,
                                last_error_log_time :=
                                  (if current_time - last_error_log_time c \<ge> 10
                                   then current_time else last_error_log_time c)\<rparr>\<rparr>))"

definition active_loops :: "runtime \<Rightarrow> nat" where
  "active_loops rt = length (filter (\<lambda>t. t = Running) (tasks rt))"

definition close :: "CouchbaseClient \<Rightarrow> CouchbaseClient" where
  "close c = (if cluster c \<noteq> None then c\<lparr>cluster := None, initialized := False\<rparr> else c)"

text \<open>The dictionaries returned by \<open>health_check\<close>, as key/value lists.\<close>

datatype pyval = PyBool bool | PyStr string | PyNone

definition health_check :: "CouchbaseClient \<Rightarrow> (string \<times> pyval) list" where
  "health_check c =
     (if \<not> initialized c then
        [(''connected'', PyBool False), (''status'', PyStr ''not_initialized'')]
      else if \<not> connected c then
        [(''connected'', PyBool False), (''status'', PyStr ''connecting''),
         (''last_error'', (case last_connection_error c of None \<Rightarrow> PyNone | Some e \<Rightarrow> PyStr e))]
      else
        [(''connected'', PyBool True), (''status'', PyStr ''healthy'')])"

text \<open>Concrete clients for evaluation: one still connecting, one connected.\<close>

definition demo_conf :: CouchbaseConf where
  "demo_conf = \<lparr>host = ''localhost'', username = ''u'', password = ''p'',
                 bucket = ''b'', protocol = ''couchbase''\<rparr>"

definition connecting_client :: CouchbaseClient where
  "connecting_client =
     (new_client (Some demo_conf))\<lparr>initialized := True, connection_task := Some 0,
                                  last_connection_error := Some ''unreachable''\<rparr>"

definition connected_client :: CouchbaseClient where
  "connected_client =
     (new_client (Some demo_conf))\<lparr>initialized := True, connected := True,
                                  cluster := Some 7, connection_task := Some 0\<rparr>"

definition connecting_runtime :: runtime where
  "connecting_runtime =
     init_connection \<lparr>client = (new_client (Some demo_conf))\<lparr>initialized := True\<rparr>, tasks = []\<rparr>"


section \<open>Compression activities and workflow (workflows/file\_compression.py)\<close>

type_synonym byte = "8 word"
type_synonym bytes = "byte list"

record FileItem =
  fi_name :: string
  fi_content :: string
  fi_size :: int

record CompressionJobInput =
  in_job_id :: string
  in_files :: "FileItem list"
  in_compression_format :: string
  in_compression_level :: int

record CompressionJobResult =
  res_job_id :: string
  res_compressed_data :: string
  res_original_size :: int
  res_compressed_size :: int
  res_compression_ratio :: real
  res_status :: string

record ProgressUpdate =
  pu_job_id :: string
  pu_progress :: int
  pu_status :: string
  pu_message :: "string option"

text \<open>
  Exceptions. \<open>ApplicationError m\<close> is \<open>temporalio.exceptions.ApplicationError(m)\<close>;
  \<open>LibraryError m\<close> is any other \<open>Exception\<close> raised by a library call;
  \<open>ActivityError cause\<close> is what \<open>workflow.execute_activity\<close> raises in the
  workflow: \<open>Some e\<close> when the activity body raised \<open>e\<close>, \<open>None\<close> when the
  activity ran into its \<open>start_to_close_timeout\<close>. Only subclasses of \<open>Exception\<close>
  are modelled; cancellation is not.
\<close>

datatype error =
    ApplicationError string
  | LibraryError string
  | ActivityError "error option"

text \<open>
  The library functions the activities call are parameters of the model:
  \<open>base64.b64decode\<close> (\<open>Inl\<close> carries the text of the exception it raised),
  \<open>base64.b64encode(...).decode()\<close>, \<open>str.encode()\<close>, \<open>ZipFile.writestr\<close> at a
  compression level (whether it raises), the bytes of the ZIP container holding a list of
  entries once the \<open>ZipFile\<close> is closed, \<open>gzip.compress\<close>, and the text
  \<open>str(e)\<close> of an \<open>ActivityError\<close>. What \<open>zipfile\<close> does with the names
  of entries is not a parameter: it is written out below.
\<close>

record library =
  b64decode :: "string \<Rightarrow> string + bytes"
  b64encode :: "bytes \<Rightarrow> string"
  str_encode :: "string \<Rightarrow> string + bytes"
  zip_writestr_raises :: "int \<Rightarrow> string \<Rightarrow> bytes \<Rightarrow> string option"
  zip_bytes :: "int \<Rightarrow> (string \<times> bytes) list \<Rightarrow> bytes"
  gzip_compress :: "int \<Rightarrow> bytes \<Rightarrow> string + bytes"
  str_activity_error :: "error option \<Rightarrow> string"

fun str_error :: "library \<Rightarrow> error \<Rightarrow> string" where
  "str_error lib (ApplicationError m) = m"
| "str_error lib (LibraryError m) = m"
| "str_error lib (ActivityError cause) = str_activity_error lib cause"

subsection \<open>update\_job\_progress\<close>

text \<open>
  The calls inside the \<open>try\<close> block of \<open>update_job_progress\<close>, each of which may
  raise. \<open>PostgresClient\<close> and \<open>conf\<close> live in other modules, so whether a
  call raises is a parameter. The session block is taken to commit when it is left
  normally and to roll back when it is left by an exception.
\<close>

datatype pg_call =
    GetPostgresConf | GetPostgresPoolConf | NewPostgresClient | PgInitialize
  | PgInitConnection | GetSession | ExecuteUpdate | LeaveSession | PgClose

fun first_raise :: "(pg_call \<Rightarrow> string option) \<Rightarrow> pg_call list \<Rightarrow> string option" where
  "first_raise raises [] = None"
| "first_raise raises (c # cs) =
     (case raises c of Some m \<Rightarrow> Some m | None \<Rightarrow> first_raise raises cs)"

definition update_job_progress_try ::
  "(pg_call \<Rightarrow> string option) \<Rightarrow> datetime \<Rightarrow> ProgressUpdate \<Rightarrow> session
     \<Rightarrow> (error + unit) \<times> session" where
  "update_job_progress_try raises utcnow p db =
     (case first_raise raises
             [GetPostgresConf, GetPostgresPoolConf, NewPostgresClient, PgInitialize,
              PgInitConnection, GetSession, ExecuteUpdate, LeaveSession] of
        Some m \<Rightarrow> (Inl (LibraryError m), db)
      | None \<Rightarrow>
          let db' = fst (update_compression_job_progress db utcnow
                           (pu_job_id p) (pu_progress p) (pu_status p) (pu_message p))
          in (case raises PgClose of
                Some m \<Rightarrow> (Inl (LibraryError m), db')
              | None \<Rightarrow> (Inr (), db')))"

text \<open>\<open>except Exception as e: ... pass\<close>: the activity returns \<open>None\<close>.\<close>

definition update_job_progress ::
  "(pg_call \<Rightarrow> string option) \<Rightarrow> datetime \<Rightarrow> ProgressUpdate \<Rightarrow> session
     \<Rightarrow> (error + unit) \<times> session" where
  "update_job_progress raises utcnow p db =
     (case update_job_progress_try raises utcnow p db of
        (Inl e, db') \<Rightarrow> (Inr (), db')
      | (Inr u, db') \<Rightarrow> (Inr u, db'))"

subsection \<open>Archive building\<close>

text \<open>
  \<open>ZipFile.writestr(name, data)\<close> makes a \<open>ZipInfo\<close> for the name, and a
  \<open>ZipInfo\<close> ends its file name at the first NUL character. (It also turns the
  separator of the operating system into \<open>/\<close>, which on POSIX is no change.)
\<close>

definition zip_name :: "string \<Rightarrow> string" where
  "zip_name nm = takeWhile (\<lambda>c. c \<noteq> CHR 0x00) nm"

text \<open>
  The loop of \<open>compress_files_zip\<close>; \<open>zf\<close> is the list of entries written to the
  \<open>ZipFile\<close> so far, each under the name its \<open>ZipInfo\<close> holds.
\<close>

fun zip_loop ::
  "library \<Rightarrow> int \<Rightarrow> FileItem list \<Rightarrow> (string \<times> bytes) list
     \<Rightarrow> error + (string \<times> bytes) list" where
  "zip_loop lib lvl [] zf = Inr zf"
| "zip_loop lib lvl (f # fs) zf =
     (case b64decode lib (fi_content f) of
        Inl m \<Rightarrow> Inl (ApplicationError (''Failed to decode file '' @ fi_name f @ '': '' @ m))
      | Inr file_content \<Rightarrow>
          (case zip_writestr_raises lib lvl (fi_name f) file_content of
             Some m \<Rightarrow> Inl (LibraryError m)
           | None \<Rightarrow> zip_loop lib lvl fs (zf @ [(zip_name (fi_name f), file_content)])))"

definition compress_files_zip :: "library \<Rightarrow> CompressionJobInput \<Rightarrow> error + bytes" where
  "compress_files_zip lib inp =
     (case zip_loop lib (in_compression_level inp) (in_files inp) [] of
        Inl e \<Rightarrow> Inl e
      | Inr zf \<Rightarrow> Inr (zip_bytes lib (in_compression_level inp) zf))"

text \<open>
  Reading an entry of an archive by its name, \<open>ZipFile.read(name)\<close>: the archive's
  table of names (\<open>NameToInfo\<close>) keeps, for each name, the entry written last
  under it; \<open>None\<close> is the \<open>KeyError\<close> for a name the table lacks.
\<close>

definition zip_read :: "(string \<times> bytes) list \<Rightarrow> string \<Rightarrow> bytes option" where
  "zip_read zf nm = map_of (rev zf) nm"

text \<open>
  The loop of \<open>compress_files_tar_gz\<close>; \<open>buf\<close> is \<open>combined_content\<close>. Every
  exception inside the \<open>try\<close> block becomes the \<open>ApplicationError\<close>.
\<close>

definition newline :: char where
  "newline = CHR 0x0A"

fun tar_loop :: "library \<Rightarrow> FileItem list \<Rightarrow> bytes \<Rightarrow> error + bytes" where
  "tar_loop lib [] buf = Inr buf"
| "tar_loop lib (f # fs) buf =
     (case b64decode lib (fi_content f) of
        Inl m \<Rightarrow> Inl (ApplicationError (''Failed to decode file '' @ fi_name f @ '': '' @ m))
      | Inr file_content \<Rightarrow>
          (case str_encode lib (''--- '' @ fi_name f @ '' ---'' @ [newline]) of
             Inl m \<Rightarrow> Inl (ApplicationError (''Failed to decode file '' @ fi_name f @ '': '' @ m))
           | Inr header \<Rightarrow> tar_loop lib fs (buf @ header @ file_content @ [10, 10])))"

definition compress_files_tar_gz :: "library \<Rightarrow> CompressionJobInput \<Rightarrow> error + bytes" where
  "compress_files_tar_gz lib inp =
     (case tar_loop lib (in_files inp) [] of
        Inl e \<Rightarrow> Inl e
      | Inr combined \<Rightarrow>
          (case gzip_compress lib (in_compression_level inp) combined of
             Inl m \<Rightarrow> Inl (LibraryError m)
           | Inr compressed_data \<Rightarrow> Inr compressed_data))"

subsection \<open>FileCompressionWorkflow.run\<close>

text \<open>
  What the workflow does to the outside is recorded as a trace, one event for each
  \<open>workflow.execute_activity\<close> and \<open>workflow.sleep\<close>, beside the job table the
  progress activity writes to.
\<close>

datatype event =
    ProgressActivity ProgressUpdate
  | ZipActivity CompressionJobInput
  | TarGzActivity CompressionJobInput
  | Sleep nat

record world =
  trace :: "event list"
  db :: session

text \<open>
  The surroundings of a run, indexed by the number of events before the call: whether
  the activity started there runs into its timeout, which database calls raise in it, and
  what the clock reads in it.
\<close>

record env =
  activity_timeout :: "nat \<Rightarrow> bool"
  pg_raises :: "nat \<Rightarrow> pg_call \<Rightarrow> string option"
  clock :: "nat \<Rightarrow> datetime"

type_synonym 'a outcome = "(error + 'a) \<times> world"

text \<open>Sequencing: an exception skips the rest.\<close>

definition and_then :: "'a outcome \<Rightarrow> ('a \<Rightarrow> world \<Rightarrow> 'b outcome) \<Rightarrow> 'b outcome" where
  "and_then r k = (case r of (Inl e, w) \<Rightarrow> (Inl e, w) | (Inr x, w) \<Rightarrow> k x w)"

definition execute_update_job_progress :: "env \<Rightarrow> ProgressUpdate \<Rightarrow> world \<Rightarrow> unit outcome" where
  "execute_update_job_progress ev p w =
     (let n = length (trace w);
          w' = w\<lparr>trace := trace w @ [ProgressActivity p]\<rparr>
      in if activity_timeout ev n then (Inl (ActivityError None), w')
         else (case update_job_progress (pg_raises ev n) (clock ev n) p (db w) of
                 (Inl e, db') \<Rightarrow> (Inl (ActivityError (Some e)), w'\<lparr>db := db'\<rparr>)
               | (Inr u, db') \<Rightarrow> (Inr u, w'\<lparr>db := db'\<rparr>)))"

definition execute_compress_files_zip ::
  "library \<Rightarrow> env \<Rightarrow> CompressionJobInput \<Rightarrow> world \<Rightarrow> bytes outcome" where
  "execute_compress_files_zip lib ev inp w =
     (let n = length (trace w);
          w' = w\<lparr>trace := trace w @ [ZipActivity inp]\<rparr>
      in if activity_timeout ev n then (Inl (ActivityError None), w')
         else (case compress_files_zip lib inp of
                 Inl e \<Rightarrow> (Inl (ActivityError (Some e)), w')
               | Inr data \<Rightarrow> (Inr data, w')))"

definition execute_compress_files_tar_gz ::
  "library \<Rightarrow> env \<Rightarrow> CompressionJobInput \<Rightarrow> world \<Rightarrow> bytes outcome" where
  "execute_compress_files_tar_gz lib ev inp w =
     (let n = length (trace w);
          w' = w\<lparr>trace := trace w @ [TarGzActivity inp]\<rparr>
      in if activity_timeout ev n then (Inl (ActivityError None), w')
         else (case compress_files_tar_gz lib inp of
                 Inl e \<Rightarrow> (Inl (ActivityError (Some e)), w')
               | Inr data \<Rightarrow> (Inr data, w')))"

definition workflow_sleep :: "nat \<Rightarrow> world \<Rightarrow> unit outcome" where
  "workflow_sleep secs w = (Inr (), w\<lparr>trace := trace w @ [Sleep secs]\<rparr>)"

text \<open>\<open>str.lower()\<close> on the ASCII letters.\<close>

definition lower_char :: "char \<Rightarrow> char" where
  "lower_char c =
     (let n = (of_char c :: nat) in if 65 \<le> n \<and> n \<le> 90 then char_of (n + 32) else c)"

definition lower :: "string \<Rightarrow> string" where
  "lower s = map lower_char s"

definition progress_update :: "string \<Rightarrow> int \<Rightarrow> string \<Rightarrow> string \<Rightarrow> ProgressUpdate" where
  "progress_update jid prog st msg =
     \<lparr>pu_job_id = jid, pu_progress = prog, pu_status = st, pu_message = Some msg\<rparr>"

text \<open>The \<open>try\<close> block of \<open>run\<close>.\<close>

definition run_try ::
  "library \<Rightarrow> env \<Rightarrow> CompressionJobInput \<Rightarrow> world \<Rightarrow> CompressionJobResult outcome" where
  "run_try lib ev inp w0 =
     and_then (execute_update_job_progress ev
                 (progress_update (in_job_id inp) 0 ''starting'' ''Initializing compression'') w0)
     (\<lambda>_ w1.
     let original_size = sum_list (map fi_size (in_files inp)) in
     and_then (execute_update_job_progress ev
                 (progress_update (in_job_id inp) 25 ''preparing''
                    ''Preparing files for compression'') w1)
     (\<lambda>_ w2.
     and_then (workflow_sleep 1 w2)
     (\<lambda>_ w3.
     and_then (execute_update_job_progress ev
                 (progress_update (in_job_id inp) 50 ''compressing'' ''Compressing files'') w3)
     (\<lambda>_ w4.
     and_then
       (if lower (in_compression_format inp) = ''zip'' then
          execute_compress_files_zip lib ev inp w4
        else if lower (in_compression_format inp) = ''tar_gz'' then
          execute_compress_files_tar_gz lib ev inp w4
        else
          (Inl (ApplicationError
                  (''Unsupported compression format: '' @ in_compression_format inp)), w4))
     (\<lambda>compressed_data w5.
     let compressed_size = int (length compressed_data);
         compression_ratio =
           (if original_size > 0
            then real_of_int (original_size - compressed_size) / real_of_int original_size * 100
            else 0) in
     and_then (execute_update_job_progress ev
                 (progress_update (in_job_id inp) 90 ''finalizing'' ''Finalizing compression'') w5)
     (\<lambda>_ w6.
     let compressed_data_b64 = b64encode lib compressed_data in
     and_then (execute_update_job_progress ev
                 (progress_update (in_job_id inp) 100 ''completed''
                    ''Compression completed successfully'') w6)
     (\<lambda>_ w7.
     (Inr \<lparr>res_job_id = in_job_id inp,
           res_compressed_data = compressed_data_b64,
           res_original_size = original_size,
           res_compressed_size = compressed_size,
           res_compression_ratio = compression_ratio,
           res_status = ''completed''\<rparr>, w7))))))))"

text \<open>
  \<open>run\<close>: the \<open>try\<close> block and its \<open>except Exception\<close> handler. An exception of
  the \<open>failed\<close> report inside the handler leaves \<open>run\<close> in place of the
  \<open>ApplicationError\<close>.
\<close>

definition run ::
  "library \<Rightarrow> env \<Rightarrow> CompressionJobInput \<Rightarrow> world \<Rightarrow> CompressionJobResult outcome" where
  "run lib ev inp w0 =
     (case run_try lib ev inp w0 of
        (Inr res, w) \<Rightarrow> (Inr res, w)
      | (Inl e, w) \<Rightarrow>
          and_then (execute_update_job_progress ev
                      (progress_update (in_job_id inp) 0 ''failed''
                         (''Compression failed: '' @ str_error lib e)) w)
          (\<lambda>_ w'.
          (Inl (ApplicationError (''Compression workflow failed: '' @ str_error lib e)), w')))"

text \<open>A run starts with an empty trace on a given job table.\<close>

definition start :: "session \<Rightarrow> world" where
  "start tbl = \<lparr>trace = [], db = tbl\<rparr>"

text \<open>The progress reports of a trace, as (status, progress) pairs in order.\<close>

fun reports :: "event list \<Rightarrow> (string \<times> int) list" where
  "reports [] = []"
| "reports (ProgressActivity p # es) = (pu_status p, pu_progress p) # reports es"
| "reports (e # es) = reports es"

fun archive_activity :: "event \<Rightarrow> bool" where
  "archive_activity (ZipActivity i) = True"
| "archive_activity (TarGzActivity i) = True"
| "archive_activity e = False"



section \<open>A concrete library and concrete jobs, for evaluation\<close>

text \<open>
  The theorems below hold for every library. To evaluate the model on concrete jobs one
  instance is fixed here: base64 over the standard alphabet, a ZIP stand-in that stores
  the entries uncompressed, each name and each content behind its length in unary, and
  a gzip stand-in that stores its input behind a two-byte magic number.
\<close>

definition b64_value :: "char \<Rightarrow> nat option" where
  "b64_value c =
     (let n = (of_char c :: nat) in
      if 65 \<le> n \<and> n \<le> 90 then Some (n - 65)
      else if 97 \<le> n \<and> n \<le> 122 then Some (n - 71)
      else if 48 \<le> n \<and> n \<le> 57 then Some (n + 4)
      else if n = 43 then Some 62
      else if n = 47 then Some 63
      else None)"

text \<open>
  Decoding keeps the position in the current group of four (\<open>quad\<close>), the bits left
  over (\<open>left\<close>) and the padding seen (\<open>pads\<close>); characters outside the alphabet
  are skipped and a group cut short is an error.
\<close>

fun demo_a2b :: "string \<Rightarrow> nat \<Rightarrow> nat \<Rightarrow> nat \<Rightarrow> bytes \<Rightarrow> string + bytes" where
  "demo_a2b [] quad left pads out =
     (if quad = 0 then Inr out
      else if quad = 1 then Inl ''Invalid base64-encoded string''
      else Inl ''Incorrect padding'')"
| "demo_a2b (c # cs) quad left pads out =
     (if c = CHR ''='' then
        (if quad \<ge> 2 \<and> quad + (pads + 1) \<ge> 4 then Inr out
         else demo_a2b cs quad left (if quad \<ge> 2 then pads + 1 else pads) out)
      else (case b64_value c of
              None \<Rightarrow> demo_a2b cs quad left pads out
            | Some v \<Rightarrow>
                (if quad = 0 then demo_a2b cs 1 v 0 out
                 else if quad = 1 then
                   demo_a2b cs 2 (v mod 16) 0 (out @ [of_nat (left * 4 + v div 16)])
                 else if quad = 2 then
                   demo_a2b cs 3 (v mod 4) 0 (out @ [of_nat (left * 16 + v div 4)])
                 else demo_a2b cs 0 0 0 (out @ [of_nat (left * 64 + v)]))))"

definition demo_b64decode :: "string \<Rightarrow> string + bytes" where
  "demo_b64decode s = demo_a2b s 0 0 0 []"

definition b64_char :: "nat \<Rightarrow> char" where
  "b64_char v =
     (if v < 26 then char_of (v + 65)
      else if v < 52 then char_of (v + 71)
      else if v < 62 then char_of (v - 4)
      else if v = 62 then CHR ''+''
      else CHR ''/'')"

fun demo_b64encode :: "bytes \<Rightarrow> string" where
  "demo_b64encode (a # b # c # rest) =
     (let x = unat a; y = unat b; z = unat c in
      [b64_char (x div 4), b64_char ((x mod 4) * 16 + y div 16),
       b64_char ((y mod 16) * 4 + z div 64), b64_char (z mod 64)] @ demo_b64encode rest)"
| "demo_b64encode [a, b] =
     (let x = unat a; y = unat b in
      [b64_char (x div 4), b64_char ((x mod 4) * 16 + y div 16),
       b64_char ((y mod 16) * 4), CHR ''=''])"
| "demo_b64encode [a] =
     (let x = unat a in [b64_char (x div 4), b64_char ((x mod 4) * 16), CHR ''='', CHR ''=''])"
| "demo_b64encode [] = []"

definition char_byte :: "char \<Rightarrow> byte" where
  "char_byte c = of_nat (of_char c)"

definition put_block :: "bytes \<Rightarrow> bytes" where
  "put_block xs = replicate (length xs) 1 @ 0 # xs"

definition demo_zip_bytes :: "int \<Rightarrow> (string \<times> bytes) list \<Rightarrow> bytes" where
  "demo_zip_bytes lvl zf =
     concat (map (\<lambda>(nm, data). put_block (map char_byte nm) @ put_block data) zf)"

definition level_raises :: "int \<Rightarrow> string option" where
  "level_raises lvl = (if lvl < - 1 \<or> 9 < lvl then Some ''Bad compression level'' else None)"

definition demo_library :: library where
  "demo_library =
     \<lparr>b64decode = demo_b64decode,
      b64encode = demo_b64encode,
      str_encode = (\<lambda>s. Inr (map char_byte s)),
      zip_writestr_raises = (\<lambda>lvl nm data. level_raises lvl),
      zip_bytes = demo_zip_bytes,
      gzip_compress =
        (\<lambda>lvl data. case level_raises lvl of Some m \<Rightarrow> Inl m | None \<Rightarrow> Inr (31 # 139 # data)),
      str_activity_error = (\<lambda>cause. ''Activity task failed'')\<rparr>"

text \<open>Surroundings in which nothing goes wrong, and ones in which no session can be had.\<close>

definition calm_env :: env where
  "calm_env = \<lparr>activity_timeout = (\<lambda>n. False), pg_raises = (\<lambda>n c. None), clock = (\<lambda>n. 100 + n)\<rparr>"

definition store_down_env :: env where
  "store_down_env =
     calm_env\<lparr>pg_raises := (\<lambda>n c. if c = GetSession then Some ''connection refused'' else None)\<rparr>"

text \<open>Two files, \<open>hi\<close> and the bytes 0, 1, 2, to be zipped.\<close>

definition zip_job :: CompressionJobInput where
  "zip_job =
     \<lparr>in_job_id = ''j1'',
      in_files = [\<lparr>fi_name = ''a.txt'', fi_content = ''aGk='', fi_size = 2\<rparr>,
                  \<lparr>fi_name = ''b.bin'', fi_content = ''AAEC'', fi_size = 3\<rparr>],
      in_compression_format = ''ZIP'',
      in_compression_level = 6\<rparr>"

text \<open>The same two contents under one name, and a file whose name holds a NUL.\<close>

definition same_name_job :: CompressionJobInput where
  "same_name_job =
     \<lparr>in_job_id = ''j1'',
      in_files = [\<lparr>fi_name = ''a.txt'', fi_content = ''aGk='', fi_size = 2\<rparr>,
                  \<lparr>fi_name = ''a.txt'', fi_content = ''AAEC'', fi_size = 3\<rparr>],
      in_compression_format = ''zip'',
      in_compression_level = 6\<rparr>"

definition nul_name_job :: CompressionJobInput where
  "nul_name_job =
     \<lparr>in_job_id = ''j1'',
      in_files = [\<lparr>fi_name = ''a'' @ [CHR 0x00] @ ''b.txt'', fi_content = ''aGk='',
                   fi_size = 2\<rparr>],
      in_compression_format = ''zip'',
      in_compression_level = 6\<rparr>"

definition rar_job :: CompressionJobInput where
  "rar_job = zip_job\<lparr>in_compression_format := ''rar''\<rparr>"

text \<open>One file whose content is a single base64 character, which does not decode.\<close>

definition undecodable_job :: CompressionJobInput where
  "undecodable_job =
     \<lparr>in_job_id = ''j1'',
      in_files = [\<lparr>fi_name = ''a.txt'', fi_content = ''A'', fi_size = 1\<rparr>],
      in_compression_format = ''zip'',
      in_compression_level = 6\<rparr>"


section \<open>Properties of the job record store\<close>

text \<open>
  Claim C10. For an existing job record, \<open>update_compression_job_progress\<close> changes at most
  the fields progress, status, message, started\_at and completed\_at: the stored record
  is the old one with those five fields replaced, so file\_count, original\_size,
  compressed\_size, compression\_ratio, compressed\_data, created\_at, workflow\_id (and
  the format and the key) stay as they were. Progress and status take the arguments. When
  the message argument is \<open>None\<close> or the empty string the message stays, and a
  started\_at that is already set is kept, also by a later \<open>starting\<close> update. The
  other rows of the table are not touched, as the updated table \<open>s(jid \<mapsto> job')\<close> says.
\<close>

theorem update_progress_frame:
  assumes "s jid = Some job"
  shows "\<exists>job'. update_compression_job_progress s utcnow jid prog st msg
                   = (s(jid \<mapsto> job'), Some job')
           \<and> job' = job\<lparr>cj_progress := cj_progress job', cj_status := cj_status job',
                         cj_message := cj_message job', cj_started_at := cj_started_at job',
                         cj_completed_at := cj_completed_at job'\<rparr>
           \<and> cj_progress job' = prog \<and> cj_status job' = st
           \<and> (msg = None \<or> msg = Some [] \<longrightarrow> cj_message job' = cj_message job)
           \<and> (cj_started_at job \<noteq> None \<longrightarrow> cj_started_at job' = cj_started_at job)"
  using assms
  by (cases msg) (auto simp: update_compression_job_progress_def Let_def)

theorem update_progress_frame_witness:
  "one_job_table ''j1'' = Some finished_job
   \<and> (\<exists>job'. update_compression_job_progress one_job_table 20 ''j1'' 0 ''starting'' (Some [])
                   = (one_job_table(''j1'' \<mapsto> job'), Some job')
           \<and> job' = finished_job\<lparr>cj_progress := cj_progress job', cj_status := cj_status job',
                         cj_message := cj_message job', cj_started_at := cj_started_at job',
                         cj_completed_at := cj_completed_at job'\<rparr>
           \<and> cj_progress job' = 0 \<and> cj_status job' = ''starting''
           \<and> cj_message job' = cj_message finished_job
           \<and> cj_started_at job' = cj_started_at finished_job)"
proof -
  have h: "one_job_table ''j1'' = Some finished_job"
    by (simp add: one_job_table_def)
  have s: "cj_started_at finished_job \<noteq> None"
    by (simp add: finished_job_def)
  from update_progress_frame [where s = one_job_table and jid = "''j1''" and job = finished_job
         and utcnow = 20 and prog = 0 and st = "''starting''" and msg = "Some []", OF h] s h
  show ?thesis by simp
qed

section \<open>Properties of the connection manager\<close>

text \<open>
  Claim C8, as stated, fails: \<open>init_connection\<close> has no test for a task that is already
  there. On an initialized client whose retry loop is running, a second call is not a
  no-op: it creates a second task, and two loops are active and stay so while both go
  on failing to connect.
\<close>

theorem init_connection_second_loop:
  "initialized (client connecting_runtime) \<and> active_loops connecting_runtime = 1
   \<and> init_connection connecting_runtime \<noteq> connecting_runtime
   \<and> active_loops (init_connection connecting_runtime) = 2
   \<and> active_loops (retry_loop_pass 1 (Refused ''unreachable'') 5
                      (retry_loop_pass 0 (Refused ''unreachable'') 5
                         (init_connection connecting_runtime))) = 2"
  by (simp add: connecting_runtime_def init_connection_def active_loops_def new_client_def
        retry_loop_pass_def Let_def)

text \<open>
  Claim C8, amended. \<open>init_connection\<close> is a no-op exactly on a client that is not
  initialized. On an initialized client every call, whether or not a loop is already
  active, adds one running retry-loop task to the event loop and stores it as the
  client's connection task; the tasks made before stay as they are.
\<close>

theorem init_connection_spawns:
  "(\<not> initialized (client rt) \<longrightarrow> init_connection rt = rt)
   \<and> (initialized (client rt) \<longrightarrow>
        active_loops (init_connection rt) = Suc (active_loops rt)
        \<and> tasks (init_connection rt) = tasks rt @ [Running]
        \<and> connection_task (client (init_connection rt)) = Some (length (tasks rt)))"
  by (simp add: init_connection_def active_loops_def)

theorem init_connection_spawns_witness:
  "initialized (client connecting_runtime)
   \<and> active_loops (init_connection connecting_runtime) = Suc (active_loops connecting_runtime)
   \<and> tasks (init_connection connecting_runtime) = tasks connecting_runtime @ [Running]
   \<and> connection_task (client (init_connection connecting_runtime))
       = Some (length (tasks connecting_runtime))
   \<and> \<not> initialized (client \<lparr>client = new_client None, tasks = []\<rparr>)
   \<and> init_connection \<lparr>client = new_client None, tasks = []\<rparr>
       = \<lparr>client = new_client None, tasks = []\<rparr>"
proof -
  have a: "initialized (client connecting_runtime)"
    by (simp add: connecting_runtime_def init_connection_def new_client_def)
  have b: "\<not> initialized (client \<lparr>client = new_client None, tasks = []\<rparr>)"
    by (simp add: new_client_def)
  from a b init_connection_spawns [of connecting_runtime]
       init_connection_spawns [of "\<lparr>client = new_client None, tasks = []\<rparr>"]
  show ?thesis by simp
qed

text \<open>
  Claim C9, as stated, fails. A client that is initialized but still connecting holds no
  cluster, so \<open>close\<close> leaves it as it is and \<open>health_check\<close> goes on reporting
  \<open>connecting\<close>; and on a connected client \<open>close\<close> leaves the connected flag set.
\<close>

theorem close_keeps_flags:
  "health_check (close connecting_client)
     \<noteq> [(''connected'', PyBool False), (''status'', PyStr ''not_initialized'')]
   \<and> connected (close connected_client)"
  by (simp add: close_def health_check_def connecting_client_def connected_client_def
        new_client_def)

text \<open>
  Claim C9, amended. On a client that holds a cluster, \<open>close\<close> releases it and resets
  the initialized flag, so that \<open>health_check\<close> then reports \<open>not_initialized\<close>; on a
  client that holds none, \<open>close\<close> is a no-op. In every state the cluster is released
  afterwards and a second \<open>close\<close> changes nothing.
\<close>

theorem close_releases:
  "close (close c) = close c
   \<and> cluster (close c) = None
   \<and> (cluster c \<noteq> None \<longrightarrow>
        \<not> initialized (close c)
        \<and> health_check (close c)
            = [(''connected'', PyBool False), (''status'', PyStr ''not_initialized'')])
   \<and> (cluster c = None \<longrightarrow> close c = c)"
  by (auto simp: close_def health_check_def)

theorem close_releases_witness:
  "cluster connected_client \<noteq> None
   \<and> close (close connected_client) = close connected_client
   \<and> cluster (close connected_client) = None
   \<and> \<not> initialized (close connected_client)
   \<and> health_check (close connected_client)
       = [(''connected'', PyBool False), (''status'', PyStr ''not_initialized'')]
   \<and> cluster connecting_client = None
   \<and> close connecting_client = connecting_client"
proof -
  have a: "cluster connected_client \<noteq> None"
    by (simp add: connected_client_def new_client_def)
  have b: "cluster connecting_client = None"
    by (simp add: connecting_client_def new_client_def)
  from a b close_releases [of connected_client] close_releases [of connecting_client]
  show ?thesis by simp
qed

section \<open>Stepping through the workflow\<close>

text \<open>
  The activity swallows every exception of its \<open>try\<close> block, so the outcome of a
  progress report in the workflow depends on the timeout alone. The lemmas below give
  the outcome and the trace of each step, and of \<open>run\<close> in terms of its \<open>try\<close>
  block.
\<close>

lemma update_job_progress_returns:
  "fst (update_job_progress raises utcnow p d) = Inr ()"
  by (simp add: update_job_progress_def split: prod.splits sum.splits)

lemma fst_and_then:
  "fst (and_then r k) = (case fst r of Inl e \<Rightarrow> Inl e | Inr x \<Rightarrow> fst (k x (snd r)))"
  by (simp add: and_then_def split: prod.splits sum.splits)

lemma snd_and_then:
  "snd (and_then r k) = (case fst r of Inl e \<Rightarrow> snd r | Inr x \<Rightarrow> snd (k x (snd r)))"
  by (simp add: and_then_def split: prod.splits sum.splits)

lemma fst_execute_update_job_progress:
  "fst (execute_update_job_progress ev p w) =
     (if activity_timeout ev (length (trace w)) then Inl (ActivityError None) else Inr ())"
proof -
  obtain r d where eq: "update_job_progress (pg_raises ev (length (trace w)))
                          (clock ev (length (trace w))) p (db w) = (r, d)"
    by (cases "update_job_progress (pg_raises ev (length (trace w)))
                 (clock ev (length (trace w))) p (db w)")
  with update_job_progress_returns
         [of "pg_raises ev (length (trace w))" "clock ev (length (trace w))" p "db w"]
  have "r = Inr ()" by simp
  with eq show ?thesis
    by (simp add: execute_update_job_progress_def Let_def)
qed

lemma trace_execute_update_job_progress:
  "trace (snd (execute_update_job_progress ev p w)) = trace w @ [ProgressActivity p]"
  by (simp add: execute_update_job_progress_def Let_def split: prod.splits sum.splits)

lemma fst_execute_compress_files_zip:
  "fst (execute_compress_files_zip lib ev inp w) =
     (if activity_timeout ev (length (trace w)) then Inl (ActivityError None)
      else (case compress_files_zip lib inp of
              Inl e \<Rightarrow> Inl (ActivityError (Some e)) | Inr d \<Rightarrow> Inr d))"
  by (simp add: execute_compress_files_zip_def Let_def split: sum.splits)

lemma trace_execute_compress_files_zip:
  "trace (snd (execute_compress_files_zip lib ev inp w)) = trace w @ [ZipActivity inp]"
  by (simp add: execute_compress_files_zip_def Let_def split: sum.splits)

lemma fst_execute_compress_files_tar_gz:
  "fst (execute_compress_files_tar_gz lib ev inp w) =
     (if activity_timeout ev (length (trace w)) then Inl (ActivityError None)
      else (case compress_files_tar_gz lib inp of
              Inl e \<Rightarrow> Inl (ActivityError (Some e)) | Inr d \<Rightarrow> Inr d))"
  by (simp add: execute_compress_files_tar_gz_def Let_def split: sum.splits)

lemma trace_execute_compress_files_tar_gz:
  "trace (snd (execute_compress_files_tar_gz lib ev inp w)) = trace w @ [TarGzActivity inp]"
  by (simp add: execute_compress_files_tar_gz_def Let_def split: sum.splits)

lemma fst_workflow_sleep: "fst (workflow_sleep n w) = Inr ()"
  by (simp add: workflow_sleep_def)

lemma trace_workflow_sleep: "trace (snd (workflow_sleep n w)) = trace w @ [Sleep n]"
  by (simp add: workflow_sleep_def)

lemmas step_simps =
  fst_and_then snd_and_then fst_execute_update_job_progress trace_execute_update_job_progress
  fst_execute_compress_files_zip trace_execute_compress_files_zip
  fst_execute_compress_files_tar_gz trace_execute_compress_files_tar_gz
  fst_workflow_sleep trace_workflow_sleep

lemma fst_run:
  "fst (run lib ev inp w0) =
     (case fst (run_try lib ev inp w0) of
        Inr res \<Rightarrow> Inr res
      | Inl e \<Rightarrow>
          (if activity_timeout ev (length (trace (snd (run_try lib ev inp w0))))
           then Inl (ActivityError None)
           else Inl (ApplicationError (''Compression workflow failed: '' @ str_error lib e))))"
  by (simp add: run_def step_simps split: prod.splits sum.splits)

lemma trace_run:
  "trace (snd (run lib ev inp w0)) =
     (case fst (run_try lib ev inp w0) of
        Inr res \<Rightarrow> trace (snd (run_try lib ev inp w0))
      | Inl e \<Rightarrow> trace (snd (run_try lib ev inp w0)) @
          [ProgressActivity (progress_update (in_job_id inp) 0 ''failed''
                               (''Compression failed: '' @ str_error lib e))])"
  by (simp add: run_def step_simps split: prod.splits sum.splits)


lemma run_try_success_trace:
  assumes "fst (run_try lib ev inp (start tbl)) = Inr res"
  shows "\<exists>a. archive_activity a \<and> trace (snd (run_try lib ev inp (start tbl))) =
           [ProgressActivity (progress_update (in_job_id inp) 0 ''starting''
                                ''Initializing compression''),
            ProgressActivity (progress_update (in_job_id inp) 25 ''preparing''
                                ''Preparing files for compression''),
            Sleep 1,
            ProgressActivity (progress_update (in_job_id inp) 50 ''compressing''
                                ''Compressing files''),
            a,
            ProgressActivity (progress_update (in_job_id inp) 90 ''finalizing''
                                ''Finalizing compression''),
            ProgressActivity (progress_update (in_job_id inp) 100 ''completed''
                                ''Compression completed successfully'')]"
  using assms
  by (simp add: run_try_def step_simps start_def Let_def split: if_splits sum.splits)

lemma run_try_failure_reports:
  assumes "fst (run_try lib ev inp (start tbl)) = Inl e"
  shows "\<forall>x \<in> set (reports (trace (snd (run_try lib ev inp (start tbl))))). fst x \<noteq> ''failed''"
  using assms
  by (simp add: run_try_def step_simps start_def Let_def progress_update_def
           split: if_splits sum.splits)

lemma run_success_run_try:
  assumes "fst (run lib ev inp w0) = Inr res"
  shows "fst (run_try lib ev inp w0) = Inr res"
    and "trace (snd (run lib ev inp w0)) = trace (snd (run_try lib ev inp w0))"
  using assms by (simp_all add: fst_run trace_run split: sum.splits if_splits)

lemma run_failure_run_try:
  assumes "fst (run lib ev inp w0) = Inl e"
  shows "\<exists>e'. fst (run_try lib ev inp w0) = Inl e'
           \<and> trace (snd (run lib ev inp w0)) = trace (snd (run_try lib ev inp w0)) @
                [ProgressActivity (progress_update (in_job_id inp) 0 ''failed''
                                     (''Compression failed: '' @ str_error lib e'))]"
  using assms by (simp add: fst_run trace_run split: sum.splits if_splits)

lemma run_completes:
  assumes "\<forall>n. \<not> activity_timeout ev n"
      and "(lower (in_compression_format inp) = ''zip'' \<and> compress_files_zip lib inp = Inr d)
           \<or> (lower (in_compression_format inp) = ''tar_gz'' \<and> compress_files_tar_gz lib inp = Inr d)"
  shows "\<exists>res. fst (run lib ev inp (start tbl)) = Inr res"
  using assms
  by (auto simp add: fst_run run_try_def step_simps start_def Let_def)

lemma run_try_pg_raises:
  "fst (run_try lib (ev\<lparr>pg_raises := raises'\<rparr>) inp (start tbl)) = fst (run_try lib ev inp (start tbl))"
  "trace (snd (run_try lib (ev\<lparr>pg_raises := raises'\<rparr>) inp (start tbl)))
     = trace (snd (run_try lib ev inp (start tbl)))"
  by (simp_all add: run_try_def step_simps start_def Let_def split: sum.splits)

lemma ratio_negative:
  assumes "0 < (a::int)" and "a < b"
  shows "real_of_int (a - b) / real_of_int a * 100 < 0"
proof -
  from assms have "real_of_int (a - b) < 0" and "0 < real_of_int a" by simp_all
  then have "real_of_int (a - b) / real_of_int a < 0" by (rule divide_neg_pos)
  then show ?thesis by (rule mult_neg_pos) simp
qed

lemma zip_loop_entries:
  assumes "zip_loop lib lvl fs zf = Inr zf'"
  shows "\<exists>es. zf' = zf @ es
           \<and> list_all2 (\<lambda>f e. fst e = zip_name (fi_name f)
                                \<and> b64decode lib (fi_content f) = Inr (snd e)) fs es"
  using assms
proof (induction fs arbitrary: zf)
  case Nil
  then show ?case by simp
next
  case (Cons f fs)
  from Cons.prems obtain data where
    d: "b64decode lib (fi_content f) = Inr data" and
    rest: "zip_loop lib lvl fs (zf @ [(zip_name (fi_name f), data)]) = Inr zf'"
    by (auto split: sum.splits option.splits)
  from Cons.IH [OF rest] obtain es where
    "zf' = (zf @ [(zip_name (fi_name f), data)]) @ es" and
    "list_all2 (\<lambda>f e. fst e = zip_name (fi_name f)
                       \<and> b64decode lib (fi_content f) = Inr (snd e)) fs es"
    by blast
  with d show ?case
    by (intro exI [of _ "(zip_name (fi_name f), data) # es"]) simp
qed

lemma zip_name_without_nul:
  assumes "CHR 0x00 \<notin> set nm"
  shows "zip_name nm = nm"
  using assms by (simp add: zip_name_def takeWhile_eq_all_conv) metis

lemma zip_read_distinct:
  assumes "distinct (map fst zf)" and "(nm, data) \<in> set zf"
  shows "zip_read zf nm = Some data"
proof -
  from assms(1) have "distinct (map fst (rev zf))" by (simp add: rev_map [symmetric])
  moreover from assms(2) have "(nm, data) \<in> set (rev zf)" by simp
  ultimately show ?thesis unfolding zip_read_def by (rule map_of_is_SomeI)
qed

section \<open>The concrete jobs, evaluated\<close>

lemmas demo_simps =
  demo_library_def calm_env_def zip_job_def rar_job_def undecodable_job_def
  compress_files_zip_def compress_files_tar_gz_def lower_def lower_char_def
  demo_b64decode_def b64_value_def b64_char_def level_raises_def demo_zip_bytes_def
  put_block_def char_byte_def char_of_eq_iff zip_name_def

lemma zip_job_archive:
  "compress_files_zip demo_library zip_job =
     Inr [1, 1, 1, 1, 1, 0, 97, 46, 116, 120, 116, 1, 1, 0, 104, 105, 1, 1, 1,
          1, 1, 0, 98, 46, 98, 105, 110, 1, 1, 1, 0, 0, 1, 2]"
  by (simp add: demo_simps)

lemma zip_job_result:
  "fst (run demo_library calm_env zip_job (start one_job_table)) =
     Inr \<lparr>res_job_id = ''j1'',
          res_compressed_data = ''AQEBAQEAYS50eHQBAQBoaQEBAQEBAGIuYmluAQEBAAABAg=='',
          res_original_size = 5, res_compressed_size = 34,
          res_compression_ratio = - 580, res_status = ''completed''\<rparr>"
  by (simp add: fst_run run_try_def step_simps start_def Let_def zip_job_archive)
     (simp add: demo_simps)

lemma rar_job_outcome:
  "fst (run_try demo_library calm_env rar_job (start one_job_table)) =
     Inl (ApplicationError ''Unsupported compression format: rar'')"
  "reports (trace (snd (run_try demo_library calm_env rar_job (start one_job_table)))) =
     [(''starting'', 0), (''preparing'', 25), (''compressing'', 50)]"
  by (simp_all add: run_try_def step_simps start_def Let_def progress_update_def
        rar_job_def zip_job_def calm_env_def lower_def lower_char_def char_of_eq_iff)

lemma undecodable_job_outcome:
  "fst (run demo_library calm_env undecodable_job (start one_job_table)) =
     Inl (ApplicationError ''Compression workflow failed: Activity task failed'')"
  "reports (trace (snd (run demo_library calm_env undecodable_job (start one_job_table)))) =
     [(''starting'', 0), (''preparing'', 25), (''compressing'', 50), (''failed'', 0)]"
  by (simp_all add: fst_run trace_run run_try_def step_simps start_def Let_def progress_update_def
        demo_simps)

section \<open>Properties of the workflow and its activities\<close>

text \<open>
  Claim C1. Every run of the workflow that returns a result has invoked the progress
  activity exactly five times, in the order
  starting (0), preparing (25), compressing (50), finalizing (90), completed (100), and
  with no other status. The theorem needs no assumption on the job: a well-formed one is
  a special case, and by \<open>run_completes\<close> a job of a supported format whose archive
  activity returns does give a successful run when no activity times out.
\<close>

theorem run_success_reports:
  assumes "fst (run lib ev inp (start tbl)) = Inr res"
  shows "reports (trace (snd (run lib ev inp (start tbl)))) =
           [(''starting'', 0), (''preparing'', 25), (''compressing'', 50),
            (''finalizing'', 90), (''completed'', 100)]"
proof -
  from run_success_run_try [OF assms]
  have t: "fst (run_try lib ev inp (start tbl)) = Inr res"
    and eq: "trace (snd (run lib ev inp (start tbl))) = trace (snd (run_try lib ev inp (start tbl)))"
    by simp_all
  from run_try_success_trace [OF t] obtain a where
    a: "archive_activity a" and
    tr: "trace (snd (run_try lib ev inp (start tbl))) =
           [ProgressActivity (progress_update (in_job_id inp) 0 ''starting''
                                ''Initializing compression''),
            ProgressActivity (progress_update (in_job_id inp) 25 ''preparing''
                                ''Preparing files for compression''),
            Sleep 1,
            ProgressActivity (progress_update (in_job_id inp) 50 ''compressing''
                                ''Compressing files''),
            a,
            ProgressActivity (progress_update (in_job_id inp) 90 ''finalizing''
                                ''Finalizing compression''),
            ProgressActivity (progress_update (in_job_id inp) 100 ''completed''
                                ''Compression completed successfully'')]"
    by blast
  from a have "reports [a] = []" by (cases a) simp_all
  then have "\<And>es. reports (a # es) = reports es" by (cases a) simp_all
  with eq tr show ?thesis by (simp add: progress_update_def)
qed

theorem run_success_reports_witness:
  "fst (run demo_library calm_env zip_job (start one_job_table)) =
     Inr \<lparr>res_job_id = ''j1'',
          res_compressed_data = ''AQEBAQEAYS50eHQBAQBoaQEBAQEBAGIuYmluAQEBAAABAg=='',
          res_original_size = 5, res_compressed_size = 34,
          res_compression_ratio = - 580, res_status = ''completed''\<rparr>
   \<and> reports (trace (snd (run demo_library calm_env zip_job (start one_job_table)))) =
           [(''starting'', 0), (''preparing'', 25), (''compressing'', 50),
            (''finalizing'', 90), (''completed'', 100)]"
  using run_success_reports [OF zip_job_result] zip_job_result by simp

text \<open>
  Claim C2, as stated, fails. The format is looked at only when the archive activity is
  chosen, after three progress activities have been invoked: for the format \<open>rar\<close>
  the \<open>try\<close> block raises the unsupported-format error with the reports
  starting, preparing and compressing already in its trace.
\<close>

theorem unsupported_format_after_reports:
  "fst (run_try demo_library calm_env rar_job (start one_job_table)) =
     Inl (ApplicationError ''Unsupported compression format: rar'')
   \<and> reports (trace (snd (run_try demo_library calm_env rar_job (start one_job_table)))) =
       [(''starting'', 0), (''preparing'', 25), (''compressing'', 50)]"
  by (simp add: rar_job_outcome)

text \<open>
  Claim C2, amended. For every job whose format, lowercased, is neither \<open>zip\<close> nor
  \<open>tar_gz\<close>, the run fails and no archive-building activity is invoked. When no
  activity times out, the reports starting, preparing and compressing are made first, the
  error is the unsupported-format error (wrapped by the handler of \<open>run\<close>), and
  the only further report is \<open>failed\<close>.
\<close>

theorem unsupported_format_fails:
  assumes "lower (in_compression_format inp) \<noteq> ''zip''"
      and "lower (in_compression_format inp) \<noteq> ''tar_gz''"
  shows "(\<exists>e. fst (run lib ev inp (start tbl)) = Inl e)
         \<and> \<not> list_ex archive_activity (trace (snd (run lib ev inp (start tbl))))
         \<and> ((\<forall>n. \<not> activity_timeout ev n) \<longrightarrow>
              fst (run lib ev inp (start tbl)) =
                Inl (ApplicationError (''Compression workflow failed: '' @
                       ''Unsupported compression format: '' @ in_compression_format inp))
              \<and> reports (trace (snd (run lib ev inp (start tbl)))) =
                  [(''starting'', 0), (''preparing'', 25), (''compressing'', 50), (''failed'', 0)])"
  using assms
  by (simp add: fst_run trace_run run_try_def step_simps start_def Let_def progress_update_def)

theorem unsupported_format_fails_witness:
  "lower (in_compression_format rar_job) \<noteq> ''zip''
   \<and> lower (in_compression_format rar_job) \<noteq> ''tar_gz''
   \<and> fst (run demo_library calm_env rar_job (start one_job_table)) =
       Inl (ApplicationError ''Compression workflow failed: Unsupported compression format: rar'')
   \<and> \<not> list_ex archive_activity
          (trace (snd (run demo_library calm_env rar_job (start one_job_table))))
   \<and> reports (trace (snd (run demo_library calm_env rar_job (start one_job_table)))) =
       [(''starting'', 0), (''preparing'', 25), (''compressing'', 50), (''failed'', 0)]"
proof -
  have z: "lower (in_compression_format rar_job) \<noteq> ''zip''"
    and t: "lower (in_compression_format rar_job) \<noteq> ''tar_gz''"
    by (simp_all add: rar_job_def zip_job_def lower_def lower_char_def char_of_eq_iff)
  have c: "\<forall>n. \<not> activity_timeout calm_env n"
    by (simp add: calm_env_def)
  have f: "in_compression_format rar_job = ''rar''"
    by (simp add: rar_job_def)
  from unsupported_format_fails [OF z t, of demo_library calm_env one_job_table] c z t f
  show ?thesis by simp
qed

text \<open>
  Claim C3, as stated, fails. The handler of \<open>run\<close> reports \<open>failed\<close> with the
  constant progress 0. After a decode failure in the ZIP activity the last milestone
  reported is compressing with 50, and the \<open>failed\<close> report carries 0.
\<close>

theorem failed_report_resets_progress:
  "reports (trace (snd (run demo_library calm_env undecodable_job (start one_job_table)))) =
     [(''starting'', 0), (''preparing'', 25), (''compressing'', 50), (''failed'', 0)]
   \<and> snd (last (reports (trace (snd (run demo_library calm_env undecodable_job
                                        (start one_job_table))))))
       \<noteq> snd (last (butlast (reports (trace (snd (run demo_library calm_env undecodable_job
                                                    (start one_job_table)))))))"
  by (simp add: undecodable_job_outcome)

text \<open>
  Claim C3, amended. Every run that ends in an exception has invoked the \<open>failed\<close>
  report exactly once, as its last activity, and that report carries progress 0, whatever
  milestone was reported before it.
\<close>

theorem failed_report_progress_zero:
  assumes "fst (run lib ev inp (start tbl)) = Inl e"
  shows "\<exists>es m. trace (snd (run lib ev inp (start tbl))) =
                   es @ [ProgressActivity \<lparr>pu_job_id = in_job_id inp, pu_progress = 0,
                                           pu_status = ''failed'', pu_message = Some m\<rparr>]
               \<and> (\<forall>x \<in> set (reports es). fst x \<noteq> ''failed'')"
proof -
  from run_failure_run_try [OF assms] obtain e' where
    t: "fst (run_try lib ev inp (start tbl)) = Inl e'" and
    tr: "trace (snd (run lib ev inp (start tbl))) = trace (snd (run_try lib ev inp (start tbl))) @
                [ProgressActivity (progress_update (in_job_id inp) 0 ''failed''
                                     (''Compression failed: '' @ str_error lib e'))]"
    by blast
  from run_try_failure_reports [OF t] tr show ?thesis
    by (simp add: progress_update_def)
qed

theorem failed_report_progress_zero_witness:
  "fst (run demo_library calm_env undecodable_job (start one_job_table)) =
     Inl (ApplicationError ''Compression workflow failed: Activity task failed'')
   \<and> (\<exists>es m. trace (snd (run demo_library calm_env undecodable_job (start one_job_table))) =
                es @ [ProgressActivity \<lparr>pu_job_id = in_job_id undecodable_job, pu_progress = 0,
                                        pu_status = ''failed'', pu_message = Some m\<rparr>]
            \<and> list_all (\<lambda>x. fst x \<noteq> ''failed'') (reports es))"
  using failed_report_progress_zero [OF undecodable_job_outcome(1)] undecodable_job_outcome(1)
  by (simp add: list_all_iff)

text \<open>
  Claim C4, as stated, fails. The store functions do not look at the status of the
  record they update: on a record that is \<open>completed\<close>,
  \<open>update_compression_job_progress\<close> sets it back to \<open>starting\<close> and
  \<open>complete_compression_job\<close> replaces its result.
\<close>

theorem terminal_record_overwritten:
  "cj_status finished_job = ''completed''
   \<and> fst (update_compression_job_progress one_job_table 20 ''j1'' 0 ''starting'' None) ''j1''
       \<noteq> Some finished_job
   \<and> map_option cj_status
         (fst (update_compression_job_progress one_job_table 20 ''j1'' 0 ''starting'' None) ''j1'')
       = Some ''starting''
   \<and> fst (complete_compression_job one_job_table 20 ''j1'' 1 0 ''AA=='') ''j1''
       \<noteq> Some finished_job"
  by (simp add: update_compression_job_progress_def complete_compression_job_def
        one_job_table_def finished_job_def Let_def)

text \<open>
  Claim C4, amended. On an existing record whose status is \<open>completed\<close> or
  \<open>failed\<close>, \<open>update_compression_job_progress\<close> leaves the record unchanged
  exactly when it repeats the stored progress and status, its message is \<open>None\<close>,
  empty or the stored one, and the clock reads the stored completed\_at;
  \<open>complete_compression_job\<close> leaves it unchanged exactly when the record already
  holds status \<open>completed\<close>, progress 100, the given size, ratio and payload, the
  success message, and a completed\_at equal to the clock reading. In every other case
  the stored record differs from the terminal one.
\<close>

theorem terminal_record_unchanged_iff:
  assumes "s jid = Some job"
      and "cj_status job = ''completed'' \<or> cj_status job = ''failed''"
  shows "(fst (update_compression_job_progress s utcnow jid prog st msg) jid = Some job)
           = (prog = cj_progress job \<and> st = cj_status job
              \<and> (\<not> truthy msg \<or> msg = cj_message job)
              \<and> cj_completed_at job = Some utcnow)
         \<and> (fst (complete_compression_job s utcnow jid csize ratio cdata) jid = Some job)
           = (cj_status job = ''completed'' \<and> cj_progress job = 100
              \<and> cj_compressed_size job = Some csize
              \<and> cj_compression_ratio job = Some ratio
              \<and> cj_compressed_data job = Some cdata
              \<and> cj_completed_at job = Some utcnow
              \<and> cj_message job = Some ''Compression completed successfully'')"
proof (intro conjI)
  show "(fst (update_compression_job_progress s utcnow jid prog st msg) jid = Some job)
           = (prog = cj_progress job \<and> st = cj_status job
              \<and> (\<not> truthy msg \<or> msg = cj_message job)
              \<and> cj_completed_at job = Some utcnow)"
    using assms
    by (cases job) (auto simp: update_compression_job_progress_def Let_def)
  show "(fst (complete_compression_job s utcnow jid csize ratio cdata) jid = Some job)
           = (cj_status job = ''completed'' \<and> cj_progress job = 100
              \<and> cj_compressed_size job = Some csize
              \<and> cj_compression_ratio job = Some ratio
              \<and> cj_compressed_data job = Some cdata
              \<and> cj_completed_at job = Some utcnow
              \<and> cj_message job = Some ''Compression completed successfully'')"
    using assms(1)
    by (cases job) (auto simp: complete_compression_job_def Let_def)
qed

theorem terminal_record_unchanged_iff_witness:
  "one_job_table ''j1'' = Some finished_job
   \<and> cj_status finished_job = ''completed''
   \<and> fst (update_compression_job_progress one_job_table 15 ''j1'' 100 ''completed'' None) ''j1''
       = Some finished_job
   \<and> fst (update_compression_job_progress one_job_table 16 ''j1'' 100 ''completed'' None) ''j1''
       \<noteq> Some finished_job
   \<and> fst (complete_compression_job one_job_table 15 ''j1'' 120 60 ''UEsDBA=='') ''j1''
       = Some finished_job
   \<and> fst (complete_compression_job one_job_table 15 ''j1'' 121 60 ''UEsDBA=='') ''j1''
       \<noteq> Some finished_job"
proof -
  have h: "one_job_table ''j1'' = Some finished_job"
    by (simp add: one_job_table_def)
  have t: "cj_status finished_job = ''completed'' \<or> cj_status finished_job = ''failed''"
    and c: "cj_status finished_job = ''completed''"
    by (simp_all add: finished_job_def)
  have f: "cj_progress finished_job = 100" "cj_completed_at finished_job = Some 15"
          "cj_compressed_size finished_job = Some 120"
          "cj_compression_ratio finished_job = Some 60"
          "cj_compressed_data finished_job = Some ''UEsDBA==''"
          "cj_message finished_job = Some ''Compression completed successfully''"
    by (simp_all add: finished_job_def)
  from terminal_record_unchanged_iff
         [where s = one_job_table and jid = "''j1''" and job = finished_job and utcnow = 15
            and prog = 100 and st = "''completed''" and msg = None
            and csize = 120 and ratio = 60 and cdata = "''UEsDBA==''", OF h t]
       terminal_record_unchanged_iff
         [where s = one_job_table and jid = "''j1''" and job = finished_job and utcnow = 16
            and prog = 100 and st = "''completed''" and msg = None
            and csize = 121 and ratio = 60 and cdata = "''UEsDBA==''", OF h t]
       terminal_record_unchanged_iff
         [where s = one_job_table and jid = "''j1''" and job = finished_job and utcnow = 15
            and prog = 100 and st = "''completed''" and msg = None
            and csize = 121 and ratio = 60 and cdata = "''UEsDBA==''", OF h t]
       h c f
  show ?thesis by simp
qed

text \<open>
  Claim C5. In every successful run the archive activity chosen by the format returned
  some bytes; compressed\_size is their number, original\_size is the sum of the declared
  sizes, and compression\_ratio is
  (original\_size - compressed\_size) / original\_size * 100 when original\_size is
  positive and 0 otherwise, in particular 0 for original\_size 0. Nothing clamps it: it is
  negative whenever the archive is larger than a positive original size. The ratio, a
  float in the source, is computed in the real numbers here.
\<close>

theorem compression_statistics:
  assumes "fst (run lib ev inp (start tbl)) = Inr res"
  shows "\<exists>data. (if lower (in_compression_format inp) = ''zip''
                  then compress_files_zip lib inp else compress_files_tar_gz lib inp) = Inr data
           \<and> res_compressed_size res = int (length data)
           \<and> res_original_size res = sum_list (map fi_size (in_files inp))
           \<and> res_compression_ratio res =
               (if res_original_size res > 0
                then real_of_int (res_original_size res - res_compressed_size res)
                       / real_of_int (res_original_size res) * 100
                else 0)
           \<and> (res_original_size res = 0 \<longrightarrow> res_compression_ratio res = 0)
           \<and> (0 < res_original_size res \<and> res_original_size res < res_compressed_size res
                \<longrightarrow> res_compression_ratio res < 0)"
proof -
  let ?orig = "sum_list (map fi_size (in_files inp))"
  from run_success_run_try(1) [OF assms]
  have t: "fst (run_try lib ev inp (start tbl)) = Inr res" .
  then obtain data where
    d: "(if lower (in_compression_format inp) = ''zip''
         then compress_files_zip lib inp else compress_files_tar_gz lib inp) = Inr data"
    and r: "res = \<lparr>res_job_id = in_job_id inp,
                   res_compressed_data = b64encode lib data,
                   res_original_size = ?orig,
                   res_compressed_size = int (length data),
                   res_compression_ratio =
                     (if ?orig > 0
                      then real_of_int (?orig - int (length data)) / real_of_int ?orig * 100
                      else 0),
                   res_status = ''completed''\<rparr>"
    by (auto simp add: run_try_def step_simps start_def Let_def split: if_splits sum.splits)
  have c: "res_compressed_size res = int (length data)"
    and o: "res_original_size res = ?orig"
    by (simp_all add: r)
  have q: "res_compression_ratio res =
             (if ?orig > 0
              then real_of_int (?orig - int (length data)) / real_of_int ?orig * 100 else 0)"
    by (simp add: r)
  have formula: "res_compression_ratio res =
               (if res_original_size res > 0
                then real_of_int (res_original_size res - res_compressed_size res)
                       / real_of_int (res_original_size res) * 100
                else 0)"
    by (simp only: c o q)
  have zero: "res_original_size res = 0 \<longrightarrow> res_compression_ratio res = 0"
    by (simp add: formula)
  have neg: "0 < res_original_size res \<and> res_original_size res < res_compressed_size res
               \<longrightarrow> res_compression_ratio res < 0"
  proof (intro impI, elim conjE)
    assume pos: "0 < res_original_size res"
       and lt: "res_original_size res < res_compressed_size res"
    from ratio_negative [OF pos lt] formula pos
    show "res_compression_ratio res < 0" by (simp only: if_True)
  qed
  from d c o formula zero neg show ?thesis by blast
qed

theorem compression_statistics_witness:
  "fst (run demo_library calm_env zip_job (start one_job_table)) =
     Inr \<lparr>res_job_id = ''j1'',
          res_compressed_data = ''AQEBAQEAYS50eHQBAQBoaQEBAQEBAGIuYmluAQEBAAABAg=='',
          res_original_size = 5, res_compressed_size = 34,
          res_compression_ratio = - 580, res_status = ''completed''\<rparr>
   \<and> (\<exists>data. compress_files_zip demo_library zip_job = Inr data \<and> 34 = int (length data))
   \<and> (5::int) = sum_list (map fi_size (in_files zip_job))
   \<and> (- 580 :: real) = real_of_int (5 - 34) / real_of_int 5 * 100
   \<and> (- 580 :: real) < 0"
proof -
  have z: "lower (in_compression_format zip_job) = ''zip''"
    by (simp add: zip_job_def lower_def lower_char_def char_of_eq_iff)
  from compression_statistics [OF zip_job_result] z zip_job_result
  show ?thesis by auto
qed

text \<open>
  Claim C6, as stated, fails. \<open>compress_files_zip\<close> hands the names to
  \<open>writestr\<close> as they come. Of two files named \<open>a.txt\<close> the archive holds two
  entries of that name, and reading \<open>a.txt\<close> gives the content of the second, not
  the decoded content of the first. A file whose name holds a NUL is stored under the name
  cut there, and reading the archive by the file's name finds nothing.
\<close>

theorem zip_name_lookup_fails:
  "compress_files_zip demo_library same_name_job =
     Inr (zip_bytes demo_library 6 [(''a.txt'', [104, 105]), (''a.txt'', [0, 1, 2])])
   \<and> b64decode demo_library ''aGk='' = Inr [104, 105]
   \<and> zip_read [(''a.txt'', [104, 105]), (''a.txt'', [0, 1, 2])] ''a.txt'' = Some [0, 1, 2]
   \<and> compress_files_zip demo_library nul_name_job =
       Inr (zip_bytes demo_library 6 [(''a'', [104, 105])])
   \<and> zip_read [(''a'', [104, 105])] (''a'' @ [CHR 0x00] @ ''b.txt'') = None"
  by (simp add: compress_files_zip_def same_name_job_def nul_name_job_def demo_library_def
        demo_b64decode_def b64_value_def level_raises_def zip_name_def zip_read_def)

text \<open>
  Claim C6, amended. Whenever \<open>compress_files_zip\<close> returns, the archive is the ZIP
  container of one entry for each file of the job, in the order of the files, named by the
  file's name cut at its first NUL character and holding the file's decoded content. When
  no name holds a NUL and the names are pairwise distinct, reading the archive by a file's
  name gives, for every file, exactly that file's decoded content.
\<close>

theorem zip_entries_by_name:
  assumes "compress_files_zip lib inp = Inr archive"
  shows "\<exists>zf. archive = zip_bytes lib (in_compression_level inp) zf
           \<and> list_all2 (\<lambda>f e. fst e = zip_name (fi_name f)
                                \<and> b64decode lib (fi_content f) = Inr (snd e))
                (in_files inp) zf
           \<and> ((\<forall>f \<in> set (in_files inp). CHR 0x00 \<notin> set (fi_name f))
                \<and> distinct (map fi_name (in_files inp))
               \<longrightarrow> (\<forall>f \<in> set (in_files inp).
                      \<exists>data. b64decode lib (fi_content f) = Inr data
                             \<and> zip_read zf (fi_name f) = Some data))"
proof -
  let ?P = "\<lambda>f e. fst e = zip_name (fi_name f) \<and> b64decode lib (fi_content f) = Inr (snd e)"
  from assms obtain zf where
    l: "zip_loop lib (in_compression_level inp) (in_files inp) [] = Inr zf" and
    a: "archive = zip_bytes lib (in_compression_level inp) zf"
    by (auto simp: compress_files_zip_def split: sum.splits)
  from zip_loop_entries [OF l]
  have all: "list_all2 ?P (in_files inp) zf"
    by simp
  have by_name: "\<exists>data. b64decode lib (fi_content f) = Inr data
                        \<and> zip_read zf (fi_name f) = Some data"
    if nul: "\<forall>f \<in> set (in_files inp). CHR 0x00 \<notin> set (fi_name f)"
    and dist: "distinct (map fi_name (in_files inp))"
    and f: "f \<in> set (in_files inp)" for f
  proof -
    have len: "length zf = length (in_files inp)"
      using all by (simp add: list_all2_lengthD)
    have names: "map fst zf = map fi_name (in_files inp)"
    proof (rule nth_equalityI)
      show "length (map fst zf) = length (map fi_name (in_files inp))"
        by (simp add: len)
    next
      fix i assume "i < length (map fst zf)"
      then have i: "i < length (in_files inp)" by (simp add: len)
      then have "in_files inp ! i \<in> set (in_files inp)" by simp
      with nul have "zip_name (fi_name (in_files inp ! i)) = fi_name (in_files inp ! i)"
        by (simp add: zip_name_without_nul)
      moreover from list_all2_nthD [OF all i]
      have "fst (zf ! i) = zip_name (fi_name (in_files inp ! i))" by simp
      ultimately show "map fst zf ! i = map fi_name (in_files inp) ! i"
        using i by (simp add: len)
    qed
    from f obtain i where i: "i < length (in_files inp)" and fi: "in_files inp ! i = f"
      by (auto simp: in_set_conv_nth)
    from list_all2_nthD [OF all i] fi
    have e: "fst (zf ! i) = zip_name (fi_name f)"
      and d: "b64decode lib (fi_content f) = Inr (snd (zf ! i))"
      by simp_all
    from nul f have "zip_name (fi_name f) = fi_name f"
      by (simp add: zip_name_without_nul)
    with e have "zf ! i = (fi_name f, snd (zf ! i))"
      by (simp add: prod_eq_iff)
    moreover from i have "zf ! i \<in> set zf" by (simp add: len)
    ultimately have "(fi_name f, snd (zf ! i)) \<in> set zf" by simp
    moreover from dist names have "distinct (map fst zf)" by simp
    ultimately have "zip_read zf (fi_name f) = Some (snd (zf ! i))"
      by (intro zip_read_distinct)
    with d show ?thesis by blast
  qed
  from a all by_name show ?thesis by blast
qed

theorem zip_entries_by_name_witness:
  "compress_files_zip demo_library zip_job =
     Inr (zip_bytes demo_library 6 [(''a.txt'', [104, 105]), (''b.bin'', [0, 1, 2])])
   \<and> list_all (\<lambda>f. CHR 0x00 \<notin> set (fi_name f)) (in_files zip_job)
   \<and> distinct (map fi_name (in_files zip_job))
   \<and> (\<exists>zf. zip_bytes demo_library 6 [(''a.txt'', [104, 105]), (''b.bin'', [0, 1, 2])]
              = zip_bytes demo_library (in_compression_level zip_job) zf
          \<and> zip_read zf ''a.txt'' = Some [104, 105]
          \<and> zip_read zf ''b.bin'' = Some [0, 1, 2])"
proof -
  have c: "compress_files_zip demo_library zip_job =
             Inr (zip_bytes demo_library 6 [(''a.txt'', [104, 105]), (''b.bin'', [0, 1, 2])])"
    by (simp add: compress_files_zip_def zip_job_def demo_library_def
          demo_b64decode_def b64_value_def level_raises_def zip_name_def)
  have n: "\<forall>f \<in> set (in_files zip_job). CHR 0x00 \<notin> set (fi_name f)"
    and d: "distinct (map fi_name (in_files zip_job))"
    by (simp_all add: zip_job_def)
  have a: "b64decode demo_library ''aGk='' = Inr [104, 105]"
    and b: "b64decode demo_library ''AAEC'' = Inr [0, 1, 2]"
    by (simp_all add: demo_library_def demo_b64decode_def b64_value_def)
  from zip_entries_by_name [OF c] n d obtain zf where
    z: "zip_bytes demo_library 6 [(''a.txt'', [104, 105]), (''b.bin'', [0, 1, 2])]
          = zip_bytes demo_library (in_compression_level zip_job) zf" and
    r: "\<forall>f \<in> set (in_files zip_job).
          \<exists>data. b64decode demo_library (fi_content f) = Inr data
                 \<and> zip_read zf (fi_name f) = Some data"
    by blast
  from r a b have "zip_read zf ''a.txt'' = Some [104, 105] \<and> zip_read zf ''b.bin'' = Some [0, 1, 2]"
    by (simp add: zip_job_def)
  with z c n d show ?thesis by (auto simp: list_all_iff)
qed

text \<open>
  Claim C7. Whatever the calls inside the \<open>try\<close> block of
  \<open>update_job_progress\<close> raise, the activity returns normally. Hence the result of a
  run and its trace do not depend on which database calls fail: a failing store alone
  never turns a run into a failure. (The log call and the imports before the \<open>try\<close>
  are taken not to raise.)
\<close>

theorem progress_failure_contained:
  "fst (update_job_progress raises utcnow p d) = Inr ()
   \<and> fst (run lib (ev\<lparr>pg_raises := raises'\<rparr>) inp (start tbl)) = fst (run lib ev inp (start tbl))
   \<and> trace (snd (run lib (ev\<lparr>pg_raises := raises'\<rparr>) inp (start tbl)))
       = trace (snd (run lib ev inp (start tbl)))"
  by (simp add: update_job_progress_returns fst_run trace_run run_try_pg_raises split: sum.splits)

theorem progress_failure_contained_witness:
  "fst (update_job_progress (pg_raises store_down_env 0) 100
          (progress_update ''j1'' 0 ''starting'' ''Initializing compression'') one_job_table)
     = Inr ()
   \<and> fst (run demo_library store_down_env zip_job (start one_job_table)) =
       Inr \<lparr>res_job_id = ''j1'',
            res_compressed_data = ''AQEBAQEAYS50eHQBAQBoaQEBAQEBAGIuYmluAQEBAAABAg=='',
            res_original_size = 5, res_compressed_size = 34,
            res_compression_ratio = - 580, res_status = ''completed''\<rparr>"
  using progress_failure_contained
          [where raises = "pg_raises store_down_env 0" and utcnow = 100
             and p = "progress_update ''j1'' 0 ''starting'' ''Initializing compression''"
             and d = one_job_table and lib = demo_library and ev = calm_env
             and raises' = "\<lambda>n c. if c = GetSession then Some ''connection refused'' else None"
             and inp = zip_job and tbl = one_job_table]
        zip_job_result
  by (simp add: store_down_env_def)

end
